theory Spec2Isabelle
  imports Main
begin

section \<open>Values exchanged with the Grafana APIs\<close>

text \<open>
  The modules \<^verbatim>\<open>alert_contact_point.py\<close> and \<^verbatim>\<open>cloud_api_key.py\<close> talk to
  Grafana through the \<^verbatim>\<open>requests\<close> library and look at two things of each response:
  \<^verbatim>\<open>result.status_code\<close> and \<^verbatim>\<open>result.json()\<close>. A decoded body is a Python value
  built from \<^verbatim>\<open>None\<close>, booleans, numbers, strings, lists and dicts. A dict is kept as
  the list of its items in insertion order (its keys are distinct), looked up with
  \<open>map_of\<close>.
\<close>

datatype json =
    JNull
  | JBool bool
  | JNum int
  | JStr string
  | JArr "json list"
  | JObj "(string \<times> json) list"

text \<open>
  The exceptions the two modules can let escape: a transport failure inside
  \<^verbatim>\<open>requests\<close>, a body that \<^verbatim>\<open>result.json()\<close> cannot decode, a missing dict key, a
  subscript or an iteration on a value that does not support it, and the read of a loop
  variable that was never bound.
\<close>

datatype pyerror =
    RequestException
  | JSONDecodeError
  | KeyError string
  | TypeError
  | UnboundLocalError

text \<open>\<^verbatim>\<open>value[key]\<close> for a string key: only a dict holding the key answers.\<close>

fun getitem :: "json \<Rightarrow> string \<Rightarrow> pyerror + json" where
  "getitem (JObj kvs) k = (case map_of kvs k of None \<Rightarrow> Inl (KeyError k) | Some v \<Rightarrow> Inr v)"
| "getitem JNull k = Inl TypeError"
| "getitem (JBool b) k = Inl TypeError"
| "getitem (JNum n) k = Inl TypeError"
| "getitem (JStr s) k = Inl TypeError"
| "getitem (JArr xs) k = Inl TypeError"

text \<open>
  \<^verbatim>\<open>for x in value\<close>: a list yields its elements, a dict its keys, a string its
  characters (each a string of length one); nothing else is iterable.
\<close>

fun iter :: "json \<Rightarrow> pyerror + json list" where
  "iter (JArr xs) = Inr xs"
| "iter (JObj kvs) = Inr (map (\<lambda>kv. JStr (fst kv)) kvs)"
| "iter (JStr s) = Inr (map (\<lambda>c. JStr [c]) s)"
| "iter JNull = Inl TypeError"
| "iter (JBool b) = Inl TypeError"
| "iter (JNum n) = Inl TypeError"

datatype verb = GET | POST | PUT | DELETE

record request =
  req_verb :: verb
  req_url :: string
  req_headers :: "(string \<times> string) list"
  req_json :: "json option"

text \<open>
  \<open>resp_json\<close> is what \<^verbatim>\<open>result.json()\<close> decodes, \<open>None\<close> when the body is not
  JSON and the call raises.
\<close>

record response =
  status_code :: int
  resp_json :: "json option"

definition json_of :: "response \<Rightarrow> pyerror + json" where
  "json_of result = (case resp_json result of None \<Rightarrow> Inl JSONDecodeError | Some j \<Rightarrow> Inr j)"

section \<open>The HTTP client as explicit state\<close>

text \<open>
  The remote side is a script of answers, consumed one per request: \<open>Some r\<close> is a
  response, \<open>None\<close> a request that raises inside \<^verbatim>\<open>requests\<close>; an exhausted script
  raises as well. Every request is appended to \<open>sent\<close>, also one that raises.
\<close>

record world =
  pending :: "response option list"
  sent :: "request list"

type_synonym 'a io = "world \<Rightarrow> (pyerror + 'a) \<times> world"

definition return_io :: "'a \<Rightarrow> 'a io" where
  "return_io x w = (Inr x, w)"

definition of_result :: "pyerror + 'a \<Rightarrow> 'a io" where
  "of_result r w = (r, w)"

definition bind_io :: "'a io \<Rightarrow> ('a \<Rightarrow> 'b io) \<Rightarrow> 'b io" where
  "bind_io m f w = (case m w of (Inl e, w') \<Rightarrow> (Inl e, w') | (Inr x, w') \<Rightarrow> f x w')"

definition http :: "request \<Rightarrow> response io" where
  "http rq w =
     (case pending w of
        [] \<Rightarrow> (Inl RequestException, w\<lparr>sent := sent w @ [rq]\<rparr>)
      | None # rs \<Rightarrow> (Inl RequestException, \<lparr>pending = rs, sent = sent w @ [rq]\<rparr>)
      | Some r # rs \<Rightarrow> (Inr r, \<lparr>pending = rs, sent = sent w @ [rq]\<rparr>))"

definition requests_post :: "string \<Rightarrow> json \<Rightarrow> (string \<times> string) list \<Rightarrow> response io" where
  "requests_post api_url body hdrs =
     http \<lparr>req_verb = POST, req_url = api_url, req_headers = hdrs, req_json = Some body\<rparr>"

definition requests_put :: "string \<Rightarrow> json \<Rightarrow> (string \<times> string) list \<Rightarrow> response io" where
  "requests_put api_url body hdrs =
     http \<lparr>req_verb = PUT, req_url = api_url, req_headers = hdrs, req_json = Some body\<rparr>"

definition requests_get :: "string \<Rightarrow> (string \<times> string) list \<Rightarrow> response io" where
  "requests_get api_url hdrs =
     http \<lparr>req_verb = GET, req_url = api_url, req_headers = hdrs, req_json = None\<rparr>"

definition requests_delete :: "string \<Rightarrow> (string \<times> string) list \<Rightarrow> response io" where
  "requests_delete api_url hdrs =
     http \<lparr>req_verb = DELETE, req_url = api_url, req_headers = hdrs, req_json = None\<rparr>"

text \<open>
  One invocation against a script of answers: what the function returns (or the
  exception that escapes) and the requests it issued, in order.
\<close>

definition run :: "'a io \<Rightarrow> response option list \<Rightarrow> (pyerror + 'a) \<times> request list" where
  "run m rs = (case m \<lparr>pending = rs, sent = []\<rparr> of (r, w) \<Rightarrow> (r, sent w))"

text \<open>What the next request gets from a script.\<close>

fun answer :: "response option list \<Rightarrow> pyerror + response" where
  "answer [] = Inl RequestException"
| "answer (None # rs) = Inl RequestException"
| "answer (Some r # rs) = Inr r"

section \<open>Results handed back to \<^verbatim>\<open>main\<close>\<close>

text \<open>The triple \<^verbatim>\<open>(is_error, has_changed, result)\<close>.\<close>

type_synonym outcome = "bool \<times> bool \<times> json"

text \<open>
  \<^verbatim>\<open>return True, False, {"status": result.status_code, 'response': result.json()['message']}\<close>
\<close>

definition status_error :: "response \<Rightarrow> outcome io" where
  "status_error result =
     bind_io (of_result (json_of result)) (\<lambda>j.
     bind_io (of_result (getitem j ''message'')) (\<lambda>m.
     return_io (True, False, JObj [(''status'', JNum (status_code result)), (''response'', m)])))"

section \<open>\<^verbatim>\<open>alert_contact_point.py\<close>\<close>

datatype state = Present | Absent

record contact_point_params =
  cp_name :: string
  uid :: string
  cp_type :: string
  settings :: "(string \<times> json) list"
  disableResolveMessage :: bool
  stack_slug :: string
  grafana_api_key :: string
  cp_state :: state

definition contact_point_body :: "contact_point_params \<Rightarrow> json" where
  "contact_point_body params =
     JObj [(''Name'', JStr (cp_name params)),
           (''UID'', JStr (uid params)),
           (''type'', JStr (cp_type params)),
           (''settings'', JObj (settings params)),
           (''DisableResolveMessage'', JBool (disableResolveMessage params))]"

definition contact_points_url :: "contact_point_params \<Rightarrow> string" where
  "contact_points_url params =
     ''https://'' @ stack_slug params @ ''.grafana.net/api/v1/provisioning/contact-points''"

definition contact_point_url :: "contact_point_params \<Rightarrow> string" where
  "contact_point_url params =
     ''https://'' @ stack_slug params @ ''.grafana.net/api/v1/provisioning/contact-points/''
       @ uid params"

definition grafana_headers :: "contact_point_params \<Rightarrow> (string \<times> string) list" where
  "grafana_headers params = [(''Authorization'', ''Bearer '' @ grafana_api_key params)]"

text \<open>
  The loop of \<^verbatim>\<open>present_alert_contact_point\<close>. Its state is the flag
  \<^verbatim>\<open>contactPointFound\<close> and the loop variable \<^verbatim>\<open>contact_points\<close>, unbound before
  the first round and rebound in every round; there is no \<^verbatim>\<open>break\<close>.
\<close>

fun present_loop :: "string \<Rightarrow> json list \<Rightarrow> bool \<times> json option \<Rightarrow> pyerror + (bool \<times> json option)" where
  "present_loop u [] st = Inr st"
| "present_loop u (contact_points # rest) (contactPointFound, var) =
     (case getitem contact_points ''uid'' of
        Inl e \<Rightarrow> Inl e
      | Inr v \<Rightarrow>
          present_loop u rest
            (if v = JStr u then True else contactPointFound, Some contact_points))"

definition present_alert_contact_point :: "contact_point_params \<Rightarrow> outcome io" where
  "present_alert_contact_point params =
     bind_io (requests_post (contact_points_url params) (contact_point_body params)
                (grafana_headers params)) (\<lambda>result.
     if status_code result = 202 then
       bind_io (of_result (json_of result)) (\<lambda>j. return_io (False, True, j))
     else if status_code result = 500 then
       bind_io (requests_put (contact_point_url params) (contact_point_body params)
                  (grafana_headers params)) (\<lambda>result.
       if status_code result = 202 then
         bind_io (requests_get (contact_points_url params) (grafana_headers params)) (\<lambda>result.
         bind_io (of_result (json_of result)) (\<lambda>listing.
         bind_io (of_result (iter listing)) (\<lambda>entries.
         bind_io (of_result (present_loop (uid params) entries (False, None))) (\<lambda>st.
         if fst st then
           (case snd st of
              None \<Rightarrow> of_result (Inl UnboundLocalError)
            | Some contact_points \<Rightarrow> return_io (False, True, contact_points))
         else return_io (True, False, JStr ''Contact Point not found'')))))
       else status_error result)
     else status_error result)"

text \<open>The loop of \<^verbatim>\<open>absent_alert_contact_point\<close>: only the flag \<^verbatim>\<open>already_exists\<close>.\<close>

fun absent_loop :: "string \<Rightarrow> json list \<Rightarrow> bool \<Rightarrow> pyerror + bool" where
  "absent_loop u [] already_exists = Inr already_exists"
| "absent_loop u (contact_points # rest) already_exists =
     (case getitem contact_points ''uid'' of
        Inl e \<Rightarrow> Inl e
      | Inr v \<Rightarrow> absent_loop u rest (if v = JStr u then True else already_exists))"

definition absent_alert_contact_point :: "contact_point_params \<Rightarrow> outcome io" where
  "absent_alert_contact_point params =
     bind_io (requests_get (contact_points_url params) (grafana_headers params)) (\<lambda>result.
     bind_io (of_result (json_of result)) (\<lambda>listing.
     bind_io (of_result (iter listing)) (\<lambda>entries.
     bind_io (of_result (absent_loop (uid params) entries False)) (\<lambda>already_exists.
     if already_exists then
       bind_io (requests_delete (contact_point_url params) (grafana_headers params)) (\<lambda>result.
       if status_code result = 202 then
         bind_io (of_result (json_of result)) (\<lambda>j. return_io (False, True, j))
       else status_error result)
     else return_io (True, False, JStr ''Alert Contact point does not exist'')))))"

section \<open>\<^verbatim>\<open>cloud_api_key.py\<close>\<close>

record cloud_api_key_params =
  key_name :: string
  role :: string
  org_slug :: string
  existing_cloud_api_key :: string
  fail_if_already_created :: bool
  key_state :: state

definition cloud_api_key_body :: "cloud_api_key_params \<Rightarrow> json" where
  "cloud_api_key_body params =
     JObj [(''name'', JStr (key_name params)), (''role'', JStr (role params))]"

definition api_keys_url :: "cloud_api_key_params \<Rightarrow> string" where
  "api_keys_url params = ''https://grafana.com/api/orgs/'' @ org_slug params @ ''/api-keys''"

definition api_key_url :: "cloud_api_key_params \<Rightarrow> string" where
  "api_key_url params =
     ''https://grafana.com/api/orgs/'' @ org_slug params @ ''/api-keys/'' @ key_name params"

definition cloud_headers :: "cloud_api_key_params \<Rightarrow> (string \<times> string) list" where
  "cloud_headers params = [(''Authorization'', ''Bearer '' @ existing_cloud_api_key params)]"

definition present_cloud_api_key :: "cloud_api_key_params \<Rightarrow> outcome io" where
  "present_cloud_api_key params =
     bind_io (requests_post (api_keys_url params) (cloud_api_key_body params)
                (cloud_headers params)) (\<lambda>result.
     if status_code result = 200 then
       bind_io (of_result (json_of result)) (\<lambda>j. return_io (False, True, j))
     else if status_code result = 409 then
       return_io (fail_if_already_created params, False,
                  JStr ''A Cloud API key with the same name already exists'')
     else status_error result)"

definition absent_cloud_api_key :: "cloud_api_key_params \<Rightarrow> outcome io" where
  "absent_cloud_api_key params =
     bind_io (requests_delete (api_key_url params) (cloud_headers params)) (\<lambda>result.
     if status_code result = 200 then
       return_io (False, True, JStr ''Cloud API key is deleted'')
     else status_error result)"

section \<open>Sample invocations\<close>

text \<open>The parameters of the tasks shown in the \<^verbatim>\<open>EXAMPLES\<close> of the two modules.\<close>

definition example_contact_point :: contact_point_params where
  "example_contact_point =
     \<lparr>cp_name = ''ops-email'', uid = ''opsemail'', cp_type = ''email'',
      settings = [(''addresses'', JStr ''ops@mydomain.com,devs@mydomain.com'')],
      disableResolveMessage = False, stack_slug = ''mystack'',
      grafana_api_key = ''token'', cp_state = Present\<rparr>"

definition example_cloud_api_key :: cloud_api_key_params where
  "example_cloud_api_key =
     \<lparr>key_name = ''key_name'', role = ''Admin'', org_slug = ''myorg'',
      existing_cloud_api_key = ''token'', fail_if_already_created = True,
      key_state = Present\<rparr>"

section \<open>Unfolding and evaluation\<close>

lemmas io_defs = bind_io_def of_result_def return_io_def

lemmas requests_defs = requests_post_def requests_put_def requests_get_def requests_delete_def

lemmas eval_defs = run_def io_defs requests_defs http_def json_of_def status_error_def

lemma http_answer:
  "http rq w = (answer (pending w), \<lparr>pending = tl (pending w), sent = sent w @ [rq]\<rparr>)"
  by (cases w) (simp add: http_def split: list.splits option.splits)

lemmas step_defs = run_def io_defs requests_defs http_answer json_of_def status_error_def

lemmas url_defs = contact_points_url_def contact_point_url_def grafana_headers_def
  api_keys_url_def api_key_url_def cloud_headers_def

lemma run_InrD:
  "fst (run m rs) = Inr x \<Longrightarrow> \<exists>w'. m \<lparr>pending = rs, sent = []\<rparr> = (Inr x, w')"
  by (cases "m \<lparr>pending = rs, sent = []\<rparr>") (simp add: run_def)

section \<open>The two scans of a listing\<close>

text \<open>
  On a listing whose entries all answer \<^verbatim>\<open>['uid']\<close> neither loop raises. The flag
  ends up set exactly when some entry carries the wanted uid; the loop variable of
  \<^verbatim>\<open>present_alert_contact_point\<close> ends up bound to the entry of the last round.
\<close>

lemma absent_loop_listing:
  assumes "\<forall>e\<in>set entries. \<exists>v. getitem e ''uid'' = Inr v"
  shows "absent_loop u entries b =
           Inr (b \<or> (\<exists>e\<in>set entries. getitem e ''uid'' = Inr (JStr u)))"
  using assms by (induction entries arbitrary: b) auto

lemma present_loop_listing:
  assumes "\<forall>e\<in>set entries. \<exists>v. getitem e ''uid'' = Inr v"
  shows "present_loop u entries (b, var) =
           Inr (b \<or> (\<exists>e\<in>set entries. getitem e ''uid'' = Inr (JStr u)),
                if entries = [] then var else Some (last entries))"
  using assms by (induction entries arbitrary: b var) auto

section \<open>The flags of an outcome\<close>

lemma status_error_flags:
  "status_error r w = (Inr (e, c, pl), w') \<Longrightarrow> e \<and> \<not> c"
  by (auto simp: status_error_def io_defs split: sum.splits prod.splits)

lemma present_alert_contact_point_flags:
  "present_alert_contact_point p w = (Inr (e, c, pl), w') \<Longrightarrow> \<not> (e \<and> c)"
  unfolding present_alert_contact_point_def
  by (auto simp: io_defs dest: status_error_flags
           split: sum.splits prod.splits if_splits option.splits)

lemma absent_alert_contact_point_flags:
  "absent_alert_contact_point p w = (Inr (e, c, pl), w') \<Longrightarrow> \<not> (e \<and> c)"
  unfolding absent_alert_contact_point_def
  by (auto simp: io_defs dest: status_error_flags
           split: sum.splits prod.splits if_splits)

lemma present_cloud_api_key_flags:
  "present_cloud_api_key p w = (Inr (e, c, pl), w') \<Longrightarrow> \<not> (e \<and> c)"
  unfolding present_cloud_api_key_def
  by (auto simp: io_defs dest: status_error_flags
           split: sum.splits prod.splits if_splits)

lemma absent_cloud_api_key_flags:
  "absent_cloud_api_key p w = (Inr (e, c, pl), w') \<Longrightarrow> \<not> (e \<and> c)"
  unfolding absent_cloud_api_key_def
  by (auto simp: io_defs dest: status_error_flags
           split: sum.splits prod.splits if_splits)

text \<open>
  Claim C1. Whatever the parameters and whatever the remote side answers, a triple
  returned by \<^verbatim>\<open>present_alert_contact_point\<close>, \<^verbatim>\<open>absent_alert_contact_point\<close>,
  \<^verbatim>\<open>present_cloud_api_key\<close> or \<^verbatim>\<open>absent_cloud_api_key\<close> never has both
  \<^verbatim>\<open>is_error\<close> and \<^verbatim>\<open>has_changed\<close> set.
\<close>

theorem outcome_never_errored_and_changed:
  assumes "m \<in> {present_alert_contact_point cp, absent_alert_contact_point cp,
                 present_cloud_api_key k, absent_cloud_api_key k}"
    and "fst (run m rs) = Inr (errored, changed, payload)"
  shows "\<not> (errored \<and> changed)"
proof -
  from assms(2) obtain w'
    where "m \<lparr>pending = rs, sent = []\<rparr> = (Inr (errored, changed, payload), w')"
    by (blast dest: run_InrD)
  with assms(1) show ?thesis
    by (auto dest: present_alert_contact_point_flags absent_alert_contact_point_flags
                   present_cloud_api_key_flags absent_cloud_api_key_flags)
qed

theorem outcome_never_errored_and_changed_witness:
  "fst (run (present_cloud_api_key example_cloud_api_key)
          [Some \<lparr>status_code = 409, resp_json = None\<rparr>])
     = Inr (True, False, JStr ''A Cloud API key with the same name already exists'')
   \<and> \<not> (True \<and> False)"
proof -
  have h: "fst (run (present_cloud_api_key example_cloud_api_key)
          [Some \<lparr>status_code = 409, resp_json = None\<rparr>])
     = Inr (True, False, JStr ''A Cloud API key with the same name already exists'')"
    by (simp add: present_cloud_api_key_def example_cloud_api_key_def eval_defs)
  have "\<not> (True \<and> False)"
    by (rule outcome_never_errored_and_changed
          [OF _ h, where cp = example_contact_point and k = example_cloud_api_key]) simp
  with h show ?thesis by simp
qed

section \<open>Contact points: \<^verbatim>\<open>state = present\<close>\<close>

text \<open>
  What \<^verbatim>\<open>present_alert_contact_point\<close> hands back after an accepted update: the
  value of the loop variable after the loop, which is the last entry of the listing,
  whether or not that entry carries the wanted uid.
\<close>

lemma present_contact_point_payload_is_last_entry:
  assumes "status_code r1 = 500" and "status_code r2 = 202"
    and "resp_json r3 = Some (JArr entries)"
    and "\<forall>e\<in>set entries. \<exists>v. getitem e ''uid'' = Inr v"
    and "\<exists>e\<in>set entries. getitem e ''uid'' = Inr (JStr (uid params))"
  shows "fst (run (present_alert_contact_point params) (Some r1 # Some r2 # Some r3 # rest)) =
           Inr (False, True, last entries)"
proof -
  from assms(5) have "entries \<noteq> []" by auto
  with assms show ?thesis
    by (simp add: present_alert_contact_point_def step_defs
          present_loop_listing [OF assms(4)])
qed

text \<open>
  Claim C2. The claim: when the create request is answered with 500, the update with 202
  and the listing holds an entry with the wanted uid, the payload is the last entry of
  the listing whose uid matches. The code returns the last entry of the listing instead:
  for uid \<^verbatim>\<open>opsemail\<close> and the listing \<^verbatim>\<open>[opsemail, pager]\<close> it hands back the
  contact point \<^verbatim>\<open>pager\<close>, while the last (and only) matching entry is \<^verbatim>\<open>opsemail\<close>.
\<close>

theorem present_contact_point_returns_last_listed_entry:
  "fst (run (present_alert_contact_point example_contact_point)
     [Some \<lparr>status_code = 500, resp_json = Some (JObj [(''message'', JStr ''invalid'')])\<rparr>,
      Some \<lparr>status_code = 202, resp_json = Some (JObj [(''message'', JStr ''updated'')])\<rparr>,
      Some \<lparr>status_code = 200, resp_json = Some (JArr
         [JObj [(''uid'', JStr ''opsemail''), (''name'', JStr ''ops-email'')],
          JObj [(''uid'', JStr ''pager''), (''name'', JStr ''on-call'')]])\<rparr>])
   = Inr (False, True, JObj [(''uid'', JStr ''pager''), (''name'', JStr ''on-call'')])
   \<and> last (filter (\<lambda>e. getitem e ''uid'' = Inr (JStr (uid example_contact_point)))
         [JObj [(''uid'', JStr ''opsemail''), (''name'', JStr ''ops-email'')],
          JObj [(''uid'', JStr ''pager''), (''name'', JStr ''on-call'')]])
     = JObj [(''uid'', JStr ''opsemail''), (''name'', JStr ''ops-email'')]"
  by (simp add: present_alert_contact_point_def example_contact_point_def eval_defs)

text \<open>
  Claim C3. With \<^verbatim>\<open>state = present\<close> and a create request answered with 500, the
  second request is a PUT of the same body to the contact point's own URL, the listing
  URL followed by the uid. If the update is answered with a status other than 202 and a
  body carrying a \<^verbatim>\<open>message\<close>, the outcome is an error holding that status and that
  message. If the update is answered with 202 and the listing fetched next has entries
  that all carry a uid, none of them the wanted one, the outcome is the error
  \<^verbatim>\<open>"Contact Point not found"\<close>.
\<close>

theorem present_contact_point_update_fallback:
  assumes "status_code r1 = 500"
  shows "take 2 (snd (run (present_alert_contact_point params) (Some r1 # rest))) =
           [\<lparr>req_verb = POST, req_url = contact_points_url params,
             req_headers = grafana_headers params,
             req_json = Some (contact_point_body params)\<rparr>,
            \<lparr>req_verb = PUT,
             req_url = ''https://'' @ stack_slug params
                 @ ''.grafana.net/api/v1/provisioning/contact-points/'' @ uid params,
             req_headers = grafana_headers params,
             req_json = Some (contact_point_body params)\<rparr>]
       \<and> (rest = Some r2 # rest2 \<and> status_code r2 \<noteq> 202 \<and> resp_json r2 = Some b \<and>
            getitem b ''message'' = Inr msg \<longrightarrow>
          fst (run (present_alert_contact_point params) (Some r1 # rest)) =
            Inr (True, False, JObj [(''status'', JNum (status_code r2)), (''response'', msg)]))
       \<and> (rest = Some r2 # Some r3 # rest3 \<and> status_code r2 = 202 \<and>
            resp_json r3 = Some (JArr entries) \<and>
            (\<forall>e\<in>set entries. \<exists>v. getitem e ''uid'' = Inr v \<and> v \<noteq> JStr (uid params)) \<longrightarrow>
          fst (run (present_alert_contact_point params) (Some r1 # rest)) =
            Inr (True, False, JStr ''Contact Point not found''))"
proof (intro conjI impI)
  show "take 2 (snd (run (present_alert_contact_point params) (Some r1 # rest))) =
           [\<lparr>req_verb = POST, req_url = contact_points_url params,
             req_headers = grafana_headers params,
             req_json = Some (contact_point_body params)\<rparr>,
            \<lparr>req_verb = PUT,
             req_url = ''https://'' @ stack_slug params
                 @ ''.grafana.net/api/v1/provisioning/contact-points/'' @ uid params,
             req_headers = grafana_headers params,
             req_json = Some (contact_point_body params)\<rparr>]"
    using assms
    by (simp add: present_alert_contact_point_def step_defs contact_point_url_def
          split: sum.splits option.splits)
next
  assume "rest = Some r2 # rest2 \<and> status_code r2 \<noteq> 202 \<and> resp_json r2 = Some b \<and>
            getitem b ''message'' = Inr msg"
  with assms show "fst (run (present_alert_contact_point params) (Some r1 # rest)) =
            Inr (True, False, JObj [(''status'', JNum (status_code r2)), (''response'', msg)])"
    by (simp add: present_alert_contact_point_def step_defs)
next
  assume a: "rest = Some r2 # Some r3 # rest3 \<and> status_code r2 = 202 \<and>
            resp_json r3 = Some (JArr entries) \<and>
            (\<forall>e\<in>set entries. \<exists>v. getitem e ''uid'' = Inr v \<and> v \<noteq> JStr (uid params))"
  then have wf: "\<forall>e\<in>set entries. \<exists>v. getitem e ''uid'' = Inr v" by blast
  from a have nomatch: "\<not> (\<exists>e\<in>set entries. getitem e ''uid'' = Inr (JStr (uid params)))"
    by fastforce
  from assms a nomatch
  show "fst (run (present_alert_contact_point params) (Some r1 # rest)) =
            Inr (True, False, JStr ''Contact Point not found'')"
    by (simp add: present_alert_contact_point_def step_defs present_loop_listing [OF wf])
qed

theorem present_contact_point_update_fallback_witness:
  "map req_verb (take 2 (snd (run (present_alert_contact_point example_contact_point)
      [Some \<lparr>status_code = 500, resp_json = None\<rparr>,
       Some \<lparr>status_code = 404,
             resp_json = Some (JObj [(''message'', JStr ''not found'')])\<rparr>]))) = [POST, PUT]
   \<and> fst (run (present_alert_contact_point example_contact_point)
      [Some \<lparr>status_code = 500, resp_json = None\<rparr>,
       Some \<lparr>status_code = 404,
             resp_json = Some (JObj [(''message'', JStr ''not found'')])\<rparr>]) =
     Inr (True, False, JObj [(''status'', JNum 404), (''response'', JStr ''not found'')])
   \<and> fst (run (present_alert_contact_point example_contact_point)
      [Some \<lparr>status_code = 500, resp_json = None\<rparr>,
       Some \<lparr>status_code = 202, resp_json = None\<rparr>,
       Some \<lparr>status_code = 200,
             resp_json = Some (JArr [JObj [(''uid'', JStr ''pager'')]])\<rparr>]) =
     Inr (True, False, JStr ''Contact Point not found'')"
proof -
  have h: "status_code \<lparr>status_code = 500, resp_json = None\<rparr> = 500" by simp
  note rejected = present_contact_point_update_fallback [OF h,
      where params = example_contact_point
        and rest = "[Some \<lparr>status_code = 404,
                           resp_json = Some (JObj [(''message'', JStr ''not found'')])\<rparr>]"
        and ?r2.0 = "\<lparr>status_code = 404,
                       resp_json = Some (JObj [(''message'', JStr ''not found'')])\<rparr>"
        and ?rest2.0 = "[]" and b = "JObj [(''message'', JStr ''not found'')]"
        and msg = "JStr ''not found''"]
  note vanished = present_contact_point_update_fallback [OF h,
      where params = example_contact_point
        and rest = "[Some \<lparr>status_code = 202, resp_json = None\<rparr>,
                     Some \<lparr>status_code = 200,
                           resp_json = Some (JArr [JObj [(''uid'', JStr ''pager'')]])\<rparr>]"
        and ?r2.0 = "\<lparr>status_code = 202, resp_json = None\<rparr>"
        and ?r3.0 = "\<lparr>status_code = 200,
                       resp_json = Some (JArr [JObj [(''uid'', JStr ''pager'')]])\<rparr>"
        and ?rest3.0 = "[]" and entries = "[JObj [(''uid'', JStr ''pager'')]]"]
  from rejected have
    "map req_verb (take 2 (snd (run (present_alert_contact_point example_contact_point)
      [Some \<lparr>status_code = 500, resp_json = None\<rparr>,
       Some \<lparr>status_code = 404,
             resp_json = Some (JObj [(''message'', JStr ''not found'')])\<rparr>]))) = [POST, PUT]"
    by simp
  moreover from rejected have
    "fst (run (present_alert_contact_point example_contact_point)
      [Some \<lparr>status_code = 500, resp_json = None\<rparr>,
       Some \<lparr>status_code = 404,
             resp_json = Some (JObj [(''message'', JStr ''not found'')])\<rparr>]) =
     Inr (True, False, JObj [(''status'', JNum 404), (''response'', JStr ''not found'')])"
    by simp
  moreover from vanished have
    "fst (run (present_alert_contact_point example_contact_point)
      [Some \<lparr>status_code = 500, resp_json = None\<rparr>,
       Some \<lparr>status_code = 202, resp_json = None\<rparr>,
       Some \<lparr>status_code = 200,
             resp_json = Some (JArr [JObj [(''uid'', JStr ''pager'')]])\<rparr>]) =
     Inr (True, False, JStr ''Contact Point not found'')"
    by (simp add: example_contact_point_def)
  ultimately show ?thesis by simp
qed

text \<open>
  Claim C4. With \<^verbatim>\<open>state = present\<close>: a create request answered with 202 and a JSON
  body gives \<^verbatim>\<open>(False, True, body)\<close>; one answered with a status other than 202 and 500
  and a body carrying a \<^verbatim>\<open>message\<close> gives the error holding that status and that
  message. In both cases the create request is the only request issued.
\<close>

theorem present_contact_point_create_status:
  "(status_code r = 202 \<and> resp_json r = Some j \<longrightarrow>
      run (present_alert_contact_point params) (Some r # rest) =
        (Inr (False, True, j),
         [\<lparr>req_verb = POST, req_url = contact_points_url params,
           req_headers = grafana_headers params,
           req_json = Some (contact_point_body params)\<rparr>]))
   \<and> (status_code r \<noteq> 202 \<and> status_code r \<noteq> 500 \<and> resp_json r = Some b \<and>
        getitem b ''message'' = Inr msg \<longrightarrow>
      run (present_alert_contact_point params) (Some r # rest) =
        (Inr (True, False, JObj [(''status'', JNum (status_code r)), (''response'', msg)]),
         [\<lparr>req_verb = POST, req_url = contact_points_url params,
           req_headers = grafana_headers params,
           req_json = Some (contact_point_body params)\<rparr>]))"
  by (simp add: present_alert_contact_point_def step_defs)

theorem present_contact_point_create_status_witness:
  "run (present_alert_contact_point example_contact_point)
     [Some \<lparr>status_code = 202, resp_json = Some (JObj [(''uid'', JStr ''opsemail'')])\<rparr>] =
     (Inr (False, True, JObj [(''uid'', JStr ''opsemail'')]),
      [\<lparr>req_verb = POST,
        req_url = ''https://mystack.grafana.net/api/v1/provisioning/contact-points'',
        req_headers = [(''Authorization'', ''Bearer token'')],
        req_json = Some (contact_point_body example_contact_point)\<rparr>])
   \<and> run (present_alert_contact_point example_contact_point)
     [Some \<lparr>status_code = 401,
            resp_json = Some (JObj [(''message'', JStr ''Unauthorized'')])\<rparr>] =
     (Inr (True, False, JObj [(''status'', JNum 401), (''response'', JStr ''Unauthorized'')]),
      [\<lparr>req_verb = POST,
        req_url = ''https://mystack.grafana.net/api/v1/provisioning/contact-points'',
        req_headers = [(''Authorization'', ''Bearer token'')],
        req_json = Some (contact_point_body example_contact_point)\<rparr>])"
  using present_contact_point_create_status
          [where r = "\<lparr>status_code = 202,
                         resp_json = Some (JObj [(''uid'', JStr ''opsemail'')])\<rparr>"
             and j = "JObj [(''uid'', JStr ''opsemail'')]"
             and params = example_contact_point and rest = "[]"]
        present_contact_point_create_status
          [where r = "\<lparr>status_code = 401,
                         resp_json = Some (JObj [(''message'', JStr ''Unauthorized'')])\<rparr>"
             and b = "JObj [(''message'', JStr ''Unauthorized'')]"
             and msg = "JStr ''Unauthorized''"
             and params = example_contact_point and rest = "[]"]
  by (simp add: contact_points_url_def grafana_headers_def example_contact_point_def)

section \<open>Contact points: \<^verbatim>\<open>state = absent\<close>\<close>

text \<open>
  Claim C5. With \<^verbatim>\<open>state = absent\<close> the first request is a GET of the listing. On a
  listing whose entries all carry a uid: if none carries the wanted uid, the outcome is
  the error \<^verbatim>\<open>"Alert Contact point does not exist"\<close> and the GET is the only request;
  if one does, the second request is a DELETE to the contact point's own URL, and its
  answer decides: 202 with a JSON body gives \<^verbatim>\<open>changed\<close>, any other status with a body
  carrying a \<^verbatim>\<open>message\<close> gives the error holding that status and that message.
\<close>

theorem absent_contact_point_status:
  assumes "resp_json r1 = Some (JArr entries)"
    and "\<forall>e\<in>set entries. \<exists>v. getitem e ''uid'' = Inr v"
  shows "take 1 (snd (run (absent_alert_contact_point params) (Some r1 # rest))) =
           [\<lparr>req_verb = GET, req_url = contact_points_url params,
             req_headers = grafana_headers params, req_json = None\<rparr>]
       \<and> ((\<forall>e\<in>set entries. getitem e ''uid'' \<noteq> Inr (JStr (uid params))) \<longrightarrow>
            run (absent_alert_contact_point params) (Some r1 # rest) =
              (Inr (True, False, JStr ''Alert Contact point does not exist''),
               [\<lparr>req_verb = GET, req_url = contact_points_url params,
                 req_headers = grafana_headers params, req_json = None\<rparr>]))
       \<and> ((\<exists>e\<in>set entries. getitem e ''uid'' = Inr (JStr (uid params))) \<longrightarrow>
            take 2 (snd (run (absent_alert_contact_point params) (Some r1 # rest))) =
              [\<lparr>req_verb = GET, req_url = contact_points_url params,
                req_headers = grafana_headers params, req_json = None\<rparr>,
               \<lparr>req_verb = DELETE,
                req_url = ''https://'' @ stack_slug params
                    @ ''.grafana.net/api/v1/provisioning/contact-points/'' @ uid params,
                req_headers = grafana_headers params, req_json = None\<rparr>]
            \<and> (rest = Some r2 # rest2 \<and> status_code r2 = 202 \<and> resp_json r2 = Some j \<longrightarrow>
                 fst (run (absent_alert_contact_point params) (Some r1 # rest)) =
                   Inr (False, True, j))
            \<and> (rest = Some r2 # rest2 \<and> status_code r2 \<noteq> 202 \<and> resp_json r2 = Some b \<and>
                 getitem b ''message'' = Inr msg \<longrightarrow>
                 fst (run (absent_alert_contact_point params) (Some r1 # rest)) =
                   Inr (True, False,
                        JObj [(''status'', JNum (status_code r2)), (''response'', msg)])))"
proof -
  note loop = absent_loop_listing [OF assms(2), of "uid params" False]
  have first: "take 1 (snd (run (absent_alert_contact_point params) (Some r1 # rest))) =
           [\<lparr>req_verb = GET, req_url = contact_points_url params,
             req_headers = grafana_headers params, req_json = None\<rparr>]"
    using assms(1)
    by (simp add: absent_alert_contact_point_def step_defs loop split: sum.splits)
  have none: "run (absent_alert_contact_point params) (Some r1 # rest) =
              (Inr (True, False, JStr ''Alert Contact point does not exist''),
               [\<lparr>req_verb = GET, req_url = contact_points_url params,
                 req_headers = grafana_headers params, req_json = None\<rparr>])"
    if "\<forall>e\<in>set entries. getitem e ''uid'' \<noteq> Inr (JStr (uid params))"
    using assms(1) that
    by (simp add: absent_alert_contact_point_def step_defs loop)
  have some: "take 2 (snd (run (absent_alert_contact_point params) (Some r1 # rest))) =
              [\<lparr>req_verb = GET, req_url = contact_points_url params,
                req_headers = grafana_headers params, req_json = None\<rparr>,
               \<lparr>req_verb = DELETE,
                req_url = ''https://'' @ stack_slug params
                    @ ''.grafana.net/api/v1/provisioning/contact-points/'' @ uid params,
                req_headers = grafana_headers params, req_json = None\<rparr>]
            \<and> (rest = Some r2 # rest2 \<and> status_code r2 = 202 \<and> resp_json r2 = Some j \<longrightarrow>
                 fst (run (absent_alert_contact_point params) (Some r1 # rest)) =
                   Inr (False, True, j))
            \<and> (rest = Some r2 # rest2 \<and> status_code r2 \<noteq> 202 \<and> resp_json r2 = Some b \<and>
                 getitem b ''message'' = Inr msg \<longrightarrow>
                 fst (run (absent_alert_contact_point params) (Some r1 # rest)) =
                   Inr (True, False,
                        JObj [(''status'', JNum (status_code r2)), (''response'', msg)]))"
    if "\<exists>e\<in>set entries. getitem e ''uid'' = Inr (JStr (uid params))"
    using assms(1) that
    by (auto simp: absent_alert_contact_point_def step_defs loop contact_point_url_def
             split: sum.splits)
  from first none some show ?thesis by blast
qed

theorem absent_contact_point_status_witness:
  "run (absent_alert_contact_point example_contact_point)
     [Some \<lparr>status_code = 200,
            resp_json = Some (JArr [JObj [(''uid'', JStr ''pager'')]])\<rparr>] =
     (Inr (True, False, JStr ''Alert Contact point does not exist''),
      [\<lparr>req_verb = GET,
        req_url = ''https://mystack.grafana.net/api/v1/provisioning/contact-points'',
        req_headers = [(''Authorization'', ''Bearer token'')], req_json = None\<rparr>])
   \<and> fst (run (absent_alert_contact_point example_contact_point)
     [Some \<lparr>status_code = 200,
            resp_json = Some (JArr [JObj [(''uid'', JStr ''opsemail'')]])\<rparr>,
      Some \<lparr>status_code = 202,
            resp_json = Some (JObj [(''message'', JStr ''deleted'')])\<rparr>]) =
     Inr (False, True, JObj [(''message'', JStr ''deleted'')])"
proof -
  have l1: "resp_json \<lparr>status_code = 200,
               resp_json = Some (JArr [JObj [(''uid'', JStr ''pager'')]])\<rparr>
             = Some (JArr [JObj [(''uid'', JStr ''pager'')]])"
    by simp
  have w1: "\<forall>e\<in>set [JObj [(''uid'', JStr ''pager'')]]. \<exists>v. getitem e ''uid'' = Inr v"
    by simp
  have l2: "resp_json \<lparr>status_code = 200,
               resp_json = Some (JArr [JObj [(''uid'', JStr ''opsemail'')]])\<rparr>
             = Some (JArr [JObj [(''uid'', JStr ''opsemail'')]])"
    by simp
  have w2: "\<forall>e\<in>set [JObj [(''uid'', JStr ''opsemail'')]]. \<exists>v. getitem e ''uid'' = Inr v"
    by simp
  from absent_contact_point_status [OF l1 w1,
      where params = example_contact_point and rest = "[]"]
  have "run (absent_alert_contact_point example_contact_point)
     [Some \<lparr>status_code = 200,
            resp_json = Some (JArr [JObj [(''uid'', JStr ''pager'')]])\<rparr>] =
     (Inr (True, False, JStr ''Alert Contact point does not exist''),
      [\<lparr>req_verb = GET,
        req_url = ''https://mystack.grafana.net/api/v1/provisioning/contact-points'',
        req_headers = [(''Authorization'', ''Bearer token'')], req_json = None\<rparr>])"
    by (simp add: example_contact_point_def contact_points_url_def grafana_headers_def)
  moreover
  from absent_contact_point_status [OF l2 w2,
      where params = example_contact_point
        and rest = "[Some \<lparr>status_code = 202,
                           resp_json = Some (JObj [(''message'', JStr ''deleted'')])\<rparr>]"
        and ?r2.0 = "\<lparr>status_code = 202,
                       resp_json = Some (JObj [(''message'', JStr ''deleted'')])\<rparr>"
        and ?rest2.0 = "[]" and j = "JObj [(''message'', JStr ''deleted'')]"]
  have "fst (run (absent_alert_contact_point example_contact_point)
     [Some \<lparr>status_code = 200,
            resp_json = Some (JArr [JObj [(''uid'', JStr ''opsemail'')]])\<rparr>,
      Some \<lparr>status_code = 202,
            resp_json = Some (JObj [(''message'', JStr ''deleted'')])\<rparr>]) =
     Inr (False, True, JObj [(''message'', JStr ''deleted'')])"
    by (simp add: example_contact_point_def)
  ultimately show ?thesis by simp
qed

section \<open>Cloud API keys\<close>

text \<open>
  Claim C6. With \<^verbatim>\<open>state = present\<close> for a Cloud API key: a create request answered
  with 200 and a JSON body gives \<^verbatim>\<open>(False, True, body)\<close>; one answered with 409 gives
  an outcome that is not changed and whose error flag is the parameter
  \<^verbatim>\<open>fail_if_already_created\<close>; one answered with any other status and a body carrying
  a \<^verbatim>\<open>message\<close> gives the error holding that status and that message.
\<close>

theorem present_cloud_api_key_status:
  "(status_code r = 200 \<and> resp_json r = Some j \<longrightarrow>
      fst (run (present_cloud_api_key params) (Some r # rest)) = Inr (False, True, j))
   \<and> (status_code r = 409 \<longrightarrow>
      fst (run (present_cloud_api_key params) (Some r # rest)) =
        Inr (fail_if_already_created params, False,
             JStr ''A Cloud API key with the same name already exists''))
   \<and> (status_code r \<noteq> 200 \<and> status_code r \<noteq> 409 \<and> resp_json r = Some b \<and>
        getitem b ''message'' = Inr msg \<longrightarrow>
      fst (run (present_cloud_api_key params) (Some r # rest)) =
        Inr (True, False, JObj [(''status'', JNum (status_code r)), (''response'', msg)]))"
  by (simp add: present_cloud_api_key_def step_defs)

theorem present_cloud_api_key_status_witness:
  "fst (run (present_cloud_api_key example_cloud_api_key)
     [Some \<lparr>status_code = 200, resp_json = Some (JObj [(''name'', JStr ''key_name'')])\<rparr>]) =
     Inr (False, True, JObj [(''name'', JStr ''key_name'')])
   \<and> fst (run (present_cloud_api_key
               (example_cloud_api_key\<lparr>fail_if_already_created := False\<rparr>))
     [Some \<lparr>status_code = 409, resp_json = None\<rparr>]) =
     Inr (False, False, JStr ''A Cloud API key with the same name already exists'')
   \<and> fst (run (present_cloud_api_key example_cloud_api_key)
     [Some \<lparr>status_code = 403,
            resp_json = Some (JObj [(''message'', JStr ''Forbidden'')])\<rparr>]) =
     Inr (True, False, JObj [(''status'', JNum 403), (''response'', JStr ''Forbidden'')])"
  using present_cloud_api_key_status
          [where r = "\<lparr>status_code = 200,
                         resp_json = Some (JObj [(''name'', JStr ''key_name'')])\<rparr>"
             and j = "JObj [(''name'', JStr ''key_name'')]"
             and params = example_cloud_api_key and rest = "[]"]
        present_cloud_api_key_status
          [where r = "\<lparr>status_code = 409, resp_json = None\<rparr>"
             and params = "example_cloud_api_key\<lparr>fail_if_already_created := False\<rparr>"
             and rest = "[]"]
        present_cloud_api_key_status
          [where r = "\<lparr>status_code = 403,
                         resp_json = Some (JObj [(''message'', JStr ''Forbidden'')])\<rparr>"
             and b = "JObj [(''message'', JStr ''Forbidden'')]"
             and msg = "JStr ''Forbidden''"
             and params = example_cloud_api_key and rest = "[]"]
  by simp

text \<open>
  Claim C7. With \<^verbatim>\<open>state = absent\<close> for a Cloud API key, whatever the remote side
  answers, exactly one request is issued: a DELETE to the key's own URL, the keys' URL
  followed by the key's name; no GET precedes it. An answer of 200 gives \<^verbatim>\<open>changed\<close>,
  any other status with a body carrying a \<^verbatim>\<open>message\<close> gives the error holding that
  status and that message.
\<close>

theorem absent_cloud_api_key_status:
  "snd (run (absent_cloud_api_key params) rs) =
      [\<lparr>req_verb = DELETE,
        req_url = ''https://grafana.com/api/orgs/'' @ org_slug params @ ''/api-keys/''
                    @ key_name params,
        req_headers = cloud_headers params, req_json = None\<rparr>]
   \<and> (rs = Some r # rest \<and> status_code r = 200 \<longrightarrow>
        fst (run (absent_cloud_api_key params) rs) =
          Inr (False, True, JStr ''Cloud API key is deleted''))
   \<and> (rs = Some r # rest \<and> status_code r \<noteq> 200 \<and> resp_json r = Some b \<and>
        getitem b ''message'' = Inr msg \<longrightarrow>
        fst (run (absent_cloud_api_key params) rs) =
          Inr (True, False, JObj [(''status'', JNum (status_code r)), (''response'', msg)]))"
  by (auto simp: absent_cloud_api_key_def step_defs api_key_url_def split: sum.splits)

theorem absent_cloud_api_key_status_witness:
  "run (absent_cloud_api_key example_cloud_api_key)
     [Some \<lparr>status_code = 200, resp_json = None\<rparr>] =
     (Inr (False, True, JStr ''Cloud API key is deleted''),
      [\<lparr>req_verb = DELETE,
        req_url = ''https://grafana.com/api/orgs/myorg/api-keys/key_name'',
        req_headers = [(''Authorization'', ''Bearer token'')], req_json = None\<rparr>])
   \<and> fst (run (absent_cloud_api_key example_cloud_api_key)
     [Some \<lparr>status_code = 404,
            resp_json = Some (JObj [(''message'', JStr ''API key not found'')])\<rparr>]) =
     Inr (True, False,
          JObj [(''status'', JNum 404), (''response'', JStr ''API key not found'')])"
  using absent_cloud_api_key_status
          [where rs = "[Some \<lparr>status_code = 200, resp_json = None\<rparr>]"
             and r = "\<lparr>status_code = 200, resp_json = None\<rparr>"
             and params = example_cloud_api_key and rest = "[]"]
        absent_cloud_api_key_status
          [where rs = "[Some \<lparr>status_code = 404,
                          resp_json = Some (JObj [(''message'', JStr ''API key not found'')])\<rparr>]"
             and r = "\<lparr>status_code = 404,
                         resp_json = Some (JObj [(''message'', JStr ''API key not found'')])\<rparr>"
             and b = "JObj [(''message'', JStr ''API key not found'')]"
             and msg = "JStr ''API key not found''"
             and params = example_cloud_api_key and rest = "[]"]
  by (cases "run (absent_cloud_api_key example_cloud_api_key)
               [Some \<lparr>status_code = 200, resp_json = None\<rparr>]")
     (simp add: example_cloud_api_key_def cloud_headers_def)

section \<open>The requests of one invocation\<close>

lemma present_alert_contact_point_requests:
  "length (snd (run (present_alert_contact_point p) rs)) \<le> 3
   \<and> (length (snd (run (present_alert_contact_point p) rs)) = 3 \<longrightarrow>
        map req_verb (snd (run (present_alert_contact_point p) rs)) = [POST, PUT, GET])"
  by (simp add: present_alert_contact_point_def step_defs
        split: option.splits sum.splits prod.splits)

lemma absent_alert_contact_point_requests:
  "length (snd (run (absent_alert_contact_point p) rs)) \<le> 2"
  by (simp add: absent_alert_contact_point_def step_defs
        split: option.splits sum.splits prod.splits)

lemma present_cloud_api_key_requests:
  "length (snd (run (present_cloud_api_key p) rs)) = 1"
  by (simp add: present_cloud_api_key_def step_defs
        split: option.splits sum.splits prod.splits)

lemma absent_cloud_api_key_requests:
  "length (snd (run (absent_cloud_api_key p) rs)) = 1"
  by (simp add: absent_cloud_api_key_def step_defs
        split: option.splits sum.splits prod.splits)

text \<open>
  Claim C8. Whatever the parameters and whatever the remote side answers, one invocation
  issues at most three requests. Three are issued only by
  \<^verbatim>\<open>present_alert_contact_point\<close>, and then they are the create (POST), the update
  (PUT) and the listing (GET), in this order; \<^verbatim>\<open>absent_alert_contact_point\<close>,
  \<^verbatim>\<open>present_cloud_api_key\<close> and \<^verbatim>\<open>absent_cloud_api_key\<close> issue at most two.
\<close>

theorem at_most_three_requests:
  "length (snd (run (present_alert_contact_point cp) rs)) \<le> 3
   \<and> (length (snd (run (present_alert_contact_point cp) rs)) = 3 \<longrightarrow>
        map req_verb (snd (run (present_alert_contact_point cp) rs)) = [POST, PUT, GET])
   \<and> length (snd (run (absent_alert_contact_point cp) rs)) \<le> 2
   \<and> length (snd (run (present_cloud_api_key k) rs)) \<le> 2
   \<and> length (snd (run (absent_cloud_api_key k) rs)) \<le> 2"
  using present_alert_contact_point_requests [of cp rs]
    absent_alert_contact_point_requests [of cp rs]
    present_cloud_api_key_requests [of k rs]
    absent_cloud_api_key_requests [of k rs]
  by simp

theorem at_most_three_requests_witness:
  "length (snd (run (present_alert_contact_point example_contact_point)
      [Some \<lparr>status_code = 500, resp_json = None\<rparr>,
       Some \<lparr>status_code = 202, resp_json = None\<rparr>,
       Some \<lparr>status_code = 200,
             resp_json = Some (JArr [JObj [(''uid'', JStr ''opsemail'')]])\<rparr>])) = 3
   \<and> map req_verb (snd (run (present_alert_contact_point example_contact_point)
      [Some \<lparr>status_code = 500, resp_json = None\<rparr>,
       Some \<lparr>status_code = 202, resp_json = None\<rparr>,
       Some \<lparr>status_code = 200,
             resp_json = Some (JArr [JObj [(''uid'', JStr ''opsemail'')]])\<rparr>]))
     = [POST, PUT, GET]"
proof -
  have h: "length (snd (run (present_alert_contact_point example_contact_point)
      [Some \<lparr>status_code = 500, resp_json = None\<rparr>,
       Some \<lparr>status_code = 202, resp_json = None\<rparr>,
       Some \<lparr>status_code = 200,
             resp_json = Some (JArr [JObj [(''uid'', JStr ''opsemail'')]])\<rparr>])) = 3"
    by (simp add: present_alert_contact_point_def example_contact_point_def eval_defs)
  from at_most_three_requests [where cp = example_contact_point
      and rs = "[Some \<lparr>status_code = 500, resp_json = None\<rparr>,
       Some \<lparr>status_code = 202, resp_json = None\<rparr>,
       Some \<lparr>status_code = 200,
             resp_json = Some (JArr [JObj [(''uid'', JStr ''opsemail'')]])\<rparr>]"] h
  show ?thesis by blast
qed

text \<open>
  Claim C9. In \<^verbatim>\<open>present_alert_contact_point\<close> every PUT request carries the JSON
  body of the first request, which is the POST: the mapping with the keys
  \<^verbatim>\<open>Name\<close>, \<^verbatim>\<open>UID\<close>, \<^verbatim>\<open>type\<close>, \<^verbatim>\<open>settings\<close> and \<^verbatim>\<open>DisableResolveMessage\<close>
  built once from the parameters.
\<close>

theorem update_body_is_create_body:
  "\<forall>rq\<in>set (snd (run (present_alert_contact_point params) rs)).
      req_verb rq = PUT \<longrightarrow>
        req_verb (hd (snd (run (present_alert_contact_point params) rs))) = POST \<and>
        req_json rq = req_json (hd (snd (run (present_alert_contact_point params) rs))) \<and>
        req_json rq = Some (JObj [(''Name'', JStr (cp_name params)),
           (''UID'', JStr (uid params)),
           (''type'', JStr (cp_type params)),
           (''settings'', JObj (settings params)),
           (''DisableResolveMessage'', JBool (disableResolveMessage params))])"
  by (simp add: present_alert_contact_point_def step_defs contact_point_body_def
        split: option.splits sum.splits prod.splits)

theorem update_body_is_create_body_witness:
  "req_verb (snd (run (present_alert_contact_point example_contact_point)
      [Some \<lparr>status_code = 500, resp_json = None\<rparr>,
       Some \<lparr>status_code = 404, resp_json = None\<rparr>]) ! 1) = PUT
   \<and> req_json (snd (run (present_alert_contact_point example_contact_point)
      [Some \<lparr>status_code = 500, resp_json = None\<rparr>,
       Some \<lparr>status_code = 404, resp_json = None\<rparr>]) ! 1) =
     Some (JObj [(''Name'', JStr ''ops-email''), (''UID'', JStr ''opsemail''),
        (''type'', JStr ''email''),
        (''settings'', JObj [(''addresses'', JStr ''ops@mydomain.com,devs@mydomain.com'')]),
        (''DisableResolveMessage'', JBool False)])"
proof -
  let ?reqs = "snd (run (present_alert_contact_point example_contact_point)
      [Some \<lparr>status_code = 500, resp_json = None\<rparr>,
       Some \<lparr>status_code = 404, resp_json = None\<rparr>])"
  have len: "length ?reqs = 2"
    by (simp add: present_alert_contact_point_def example_contact_point_def eval_defs)
  then have mem: "?reqs ! 1 \<in> set ?reqs" by simp
  have put: "req_verb (?reqs ! 1) = PUT"
    by (simp add: present_alert_contact_point_def example_contact_point_def eval_defs)
  from update_body_is_create_body [THEN bspec, OF mem] put
  have "req_json (?reqs ! 1) =
     Some (JObj [(''Name'', JStr (cp_name example_contact_point)),
        (''UID'', JStr (uid example_contact_point)),
        (''type'', JStr (cp_type example_contact_point)),
        (''settings'', JObj (settings example_contact_point)),
        (''DisableResolveMessage'', JBool (disableResolveMessage example_contact_point))])"
    by blast
  with put show ?thesis by (simp add: example_contact_point_def)
qed

end
